theory Spec2Isabelle
  imports
    Main
    "HOL-Library.Word"
    "HOL-Library.Sublist"
    "HOL-Library.Char_ord"
    "HOL-Library.List_Lexorder"
begin

section \<open>The data model of \<^verbatim>\<open>include/leveldb/slice.h\<close>\<close>

text \<open>
  A \<^verbatim>\<open>Slice\<close> is a pointer into storage it does not own, and a size. The pointer is
  modelled by what it designates: \<open>data_m\<close> is the storage readable from the pointer
  onwards (the terminating NUL that a string literal or a \<^verbatim>\<open>std::string\<close> keeps after
  its characters is left out), and \<open>size_m\<close> is the \<^verbatim>\<open>size_t\<close> length. A byte is a
  \<^typ>\<open>char\<close>, whose value as \<^verbatim>\<open>unsigned char\<close> is \<^term>\<open>of_char c :: nat\<close>.
  The members \<^verbatim>\<open>data_\<close>, \<^verbatim>\<open>size_\<close>, \<^verbatim>\<open>src_\<close>, \<^verbatim>\<open>dst_\<close> and \<^verbatim>\<open>s_\<close> carry the
  suffix \<open>_m\<close> here, since a name cannot end with an underscore.

  The class enforces nothing about the storage. Reading outside of it is undefined
  behaviour in C++; the model makes it a value, \<open>OutOfBounds\<close>, as it makes a failed
  \<^verbatim>\<open>assert\<close> the value \<open>AssertionFailure\<close>.
\<close>

datatype fault = AssertionFailure | OutOfBounds

record Slice =
  data_m :: string
  size_m :: nat

text \<open>
  \<^verbatim>\<open>class Slice_v : public Slice\<close> adds two \<^verbatim>\<open>int\<close> members (32 bits, two's
  complement, read by \<^const>\<open>sint\<close>) and the string that it owns.
\<close>

record Slice_v = Slice +
  src_m :: "32 word"
  dst_m :: "32 word"
  s_m :: string

text \<open>
  The contract on the caller: the pointer references at least \<open>size_m\<close> bytes. The bytes
  that a slice designates are the first \<open>size_m\<close> bytes of its storage.
\<close>

definition valid :: "'a Slice_scheme \<Rightarrow> bool" where
  "valid s \<longleftrightarrow> size_m s \<le> length (data_m s)"

definition bytes :: "'a Slice_scheme \<Rightarrow> string" where
  "bytes s = take (size_m s) (data_m s)"

section \<open>The library functions that the header calls\<close>

text \<open>
  Modelled from the spec: \<^verbatim>\<open>memcmp\<close> belongs to the C library and is not part of the
  repository. It is the raw memory comparison of the first \<open>n\<close> bytes of two buffers: zero
  when they agree, and otherwise of the sign of the difference between the first two bytes
  that differ, both read as \<^verbatim>\<open>unsigned char\<close>. The model returns that difference. Both
  buffers must hold \<open>n\<close> bytes.
\<close>

fun cmp_bytes :: "string \<Rightarrow> string \<Rightarrow> int" where
  "cmp_bytes (c1 # s1) (c2 # s2) =
     (if c1 = c2 then cmp_bytes s1 s2 else int (of_char c1) - int (of_char c2))"
| "cmp_bytes _ _ = 0"

definition memcmp :: "string \<Rightarrow> string \<Rightarrow> nat \<Rightarrow> fault + int" where
  "memcmp s1 s2 n =
     (if n \<le> length s1 \<and> n \<le> length s2 then Inr (cmp_bytes (take n s1) (take n s2))
      else Inl OutOfBounds)"

text \<open>
  Modelled from the spec: \<^verbatim>\<open>std::to_string(int)\<close> belongs to the C++ library and is not
  part of the repository. It is the decimal rendering of the integer, as \<^verbatim>\<open>%d\<close> prints
  it: the digits of the absolute value, most significant first, after a minus sign when the
  integer is negative.
\<close>

fun to_digits :: "nat \<Rightarrow> string" where
  "to_digits n =
     (if n < 10 then [char_of (48 + n)]
      else to_digits (n div 10) @ [char_of (48 + n mod 10)])"

definition to_string :: "32 word \<Rightarrow> string" where
  "to_string v =
     (if sint v < 0 then CHR ''-'' # to_digits (nat (- sint v))
      else to_digits (nat (sint v)))"

text \<open>
  The number that a decimal rendering denotes, read back digit by digit. It is the
  specification against which \<^const>\<open>to_string\<close> is checked, not part of the header.
\<close>

definition digits_value :: "string \<Rightarrow> nat" where
  "digits_value ds = foldl (\<lambda>acc c. 10 * acc + (of_char c - 48)) 0 ds"

definition decimal_value :: "string \<Rightarrow> int" where
  "decimal_value s =
     (case s of
        [] \<Rightarrow> 0
      | c # ds \<Rightarrow> if c = CHR ''-'' then - int (digits_value ds) else int (digits_value s))"

section \<open>\<^verbatim>\<open>class Slice\<close>\<close>

text \<open>The constructors \<^verbatim>\<open>Slice()\<close>, \<^verbatim>\<open>Slice(d, n)\<close> and \<^verbatim>\<open>Slice(const std::string&)\<close>.\<close>

definition Slice_default :: Slice where
  "Slice_default = \<lparr>data_m = '''', size_m = 0\<rparr>"

definition Slice_ptr_len :: "string \<Rightarrow> nat \<Rightarrow> Slice" where
  "Slice_ptr_len d n = \<lparr>data_m = d, size_m = n\<rparr>"

definition Slice_string :: "string \<Rightarrow> Slice" where
  "Slice_string s = \<lparr>data_m = s, size_m = length s\<rparr>"

text \<open>\<^verbatim>\<open>char operator[](size_t n) const\<close>: the assertion, then the read.\<close>

definition Slice_index :: "'a Slice_scheme \<Rightarrow> nat \<Rightarrow> fault + char" where
  "Slice_index s n =
     (if \<not> n < size_m s then Inl AssertionFailure
      else if n < length (data_m s) then Inr (data_m s ! n)
      else Inl OutOfBounds)"

text \<open>
  \<^verbatim>\<open>void remove_prefix(size_t n)\<close>: the assertion, then \<^verbatim>\<open>data_ += n; size_ -= n;\<close>. The
  slice is returned updated. Past the assertion \<open>n \<le> size_m s\<close>, so that the unsigned
  subtraction does not wrap.
\<close>

definition remove_prefix :: "'a Slice_scheme \<Rightarrow> nat \<Rightarrow> fault + 'a Slice_scheme" where
  "remove_prefix s n =
     (if \<not> n \<le> size_m s then Inl AssertionFailure
      else if n \<le> length (data_m s)
        then Inr (s\<lparr>data_m := drop n (data_m s), size_m := size_m s - n\<rparr>)
      else Inl OutOfBounds)"

text \<open>
  \<^verbatim>\<open>operator==(const Slice&, const Slice&)\<close> and its negation \<^verbatim>\<open>operator!=\<close>. The
  conjunction is short-circuited: sizes that differ leave the memory unread.
\<close>

definition Slice_eq :: "'a Slice_scheme \<Rightarrow> 'b Slice_scheme \<Rightarrow> fault + bool" where
  "Slice_eq x y =
     (if size_m x = size_m y
      then (case memcmp (data_m x) (data_m y) (size_m x) of
              Inl e \<Rightarrow> Inl e
            | Inr r \<Rightarrow> Inr (r = 0))
      else Inr False)"

definition Slice_ne :: "'a Slice_scheme \<Rightarrow> 'b Slice_scheme \<Rightarrow> fault + bool" where
  "Slice_ne x y = (case Slice_eq x y of Inl e \<Rightarrow> Inl e | Inr b \<Rightarrow> Inr (\<not> b))"

text \<open>\<^verbatim>\<open>int Slice::compare(const Slice& b) const\<close>.\<close>

definition Slice_compare :: "'a Slice_scheme \<Rightarrow> 'b Slice_scheme \<Rightarrow> fault + int" where
  "Slice_compare a b =
     (let min_len = (if size_m a < size_m b then size_m a else size_m b) in
      case memcmp (data_m a) (data_m b) min_len of
        Inl e \<Rightarrow> Inl e
      | Inr r \<Rightarrow>
          Inr (if r = 0
               then (if size_m a < size_m b then - 1
                     else if size_m a > size_m b then 1
                     else r)
               else r))"

text \<open>The order that \<^verbatim>\<open>compare\<close> induces: \<open>a\<close> sorts before \<open>b\<close> when \<^verbatim>\<open>a.compare(b) < 0\<close>.\<close>

definition Slice_less :: "'a Slice_scheme \<Rightarrow> 'b Slice_scheme \<Rightarrow> bool" where
  "Slice_less a b = (case Slice_compare a b of Inl e \<Rightarrow> False | Inr r \<Rightarrow> r < 0)"

section \<open>\<^verbatim>\<open>class Slice_v\<close>\<close>

text \<open>
  The constructors \<^verbatim>\<open>Slice_v()\<close> and \<^verbatim>\<open>Slice_v(int src, int dst)\<close>. The second builds
  the string and points the inherited members at it.
\<close>

definition Slice_v_default :: Slice_v where
  "Slice_v_default = \<lparr>data_m = '''', size_m = 0, src_m = 0, dst_m = 0, s_m = ''''\<rparr>"

definition Slice_v_new :: "32 word \<Rightarrow> 32 word \<Rightarrow> Slice_v" where
  "Slice_v_new src dst =
     (let s = to_string src @ CHR ''|'' # to_string dst
      in \<lparr>data_m = s, size_m = length s, src_m = src, dst_m = dst, s_m = s\<rparr>)"

definition src :: "Slice_v \<Rightarrow> 32 word" where
  "src a = src_m a"

definition dst :: "Slice_v \<Rightarrow> 32 word" where
  "dst a = dst_m a"

text \<open>\<^verbatim>\<open>int Slice_v::compare(const Slice_v& b) const\<close>, on signed integers.\<close>

definition Slice_v_compare :: "Slice_v \<Rightarrow> Slice_v \<Rightarrow> int" where
  "Slice_v_compare a b =
     (if sint (src_m a) < sint (src_m b) then - 1
      else if sint (src_m a) > sint (src_m b) then 1
      else if sint (dst_m a) < sint (dst_m b) then - 1
      else if sint (dst_m a) > sint (dst_m b) then 1
      else 0)"

text \<open>\<^verbatim>\<open>bool operator==(Slice_v x, Slice_v& y)\<close>.\<close>

definition Slice_v_eq :: "Slice_v \<Rightarrow> Slice_v \<Rightarrow> bool" where
  "Slice_v_eq x y \<longleftrightarrow> src x = src y \<and> (dst x = dst y \<or> dst x = - 1 \<or> dst y = - 1)"

text \<open>
  \<^verbatim>\<open>bool operator!=(const Slice_v& x, const Slice_v& y) { return !(x == y); }\<close>.
  Both operands of \<^verbatim>\<open>x == y\<close> are const here. The second parameter of
  \<^verbatim>\<open>operator==(Slice_v, Slice_v&)\<close> is a reference to non-const, which cannot bind to a
  const operand, so that overload is not viable for this call. The call resolves to the other
  candidate, \<^verbatim>\<open>operator==(const Slice&, const Slice&)\<close>, through the conversion of
  both operands to their base class: the bytes of the two encodings are compared.
\<close>

definition Slice_v_ne :: "Slice_v \<Rightarrow> Slice_v \<Rightarrow> fault + bool" where
  "Slice_v_ne x y = (case Slice_eq x y of Inl e \<Rightarrow> Inl e | Inr b \<Rightarrow> Inr (\<not> b))"

text \<open>
  The expression \<^verbatim>\<open>x == y\<close> on two \<^verbatim>\<open>Slice_v\<close> operands, as a caller writes it. Two
  overloads are candidates. \<^verbatim>\<open>operator==(Slice_v, Slice_v&)\<close> is viable only when \<open>y\<close> is an
  lvalue that is not const, since its second parameter is a reference to non-const; it is
  then the better match, needing no conversion to the base class. For a const or temporary
  \<open>y\<close> the call resolves to \<^verbatim>\<open>operator==(const Slice&, const Slice&)\<close>, as it does in the
  body of \<^verbatim>\<open>operator!=\<close>. The left operand is taken by value, so that its category does
  not matter. The flag says whether \<open>y\<close> is a non-const lvalue.
\<close>

definition Slice_v_eq_call :: "Slice_v \<Rightarrow> Slice_v \<Rightarrow> bool \<Rightarrow> fault + bool" where
  "Slice_v_eq_call x y y_nonconst_lvalue =
     (if y_nonconst_lvalue then Inr (Slice_v_eq x y) else Slice_eq x y)"

declare to_digits.simps [simp del]

section \<open>Facts about the raw comparison\<close>

lemma cmp_bytes_eq0: "length xs = length ys \<Longrightarrow> cmp_bytes xs ys = 0 \<longleftrightarrow> xs = ys"
  by (induction xs ys rule: list_induct2) auto

lemma cmp_bytes_neg: "length xs = length ys \<Longrightarrow> cmp_bytes xs ys < 0 \<longleftrightarrow> xs < ys"
  by (induction xs ys rule: list_induct2) (auto simp: less_char_def)

lemma cmp_bytes_pos: "length xs = length ys \<Longrightarrow> 0 < cmp_bytes xs ys \<longleftrightarrow> ys < xs"
  by (induction xs ys rule: list_induct2) (auto simp: less_char_def)

lemma append_less_same_length:
  fixes p q :: "'a::linorder list"
  shows "length p = length q \<Longrightarrow> p @ u < q @ v \<longleftrightarrow> p < q \<or> (p = q \<and> u < v)"
  by (induction p q rule: list_induct2) auto

lemma Nil_less_iff:
  fixes xs :: "'a::linorder list"
  shows "[] < xs \<longleftrightarrow> xs \<noteq> []"
  by (cases xs) simp_all

lemma length_bytes: "valid s \<Longrightarrow> length (bytes s) = size_m s"
  by (simp add: valid_def bytes_def)

lemma memcmp_bytes:
  "valid a \<Longrightarrow> valid b \<Longrightarrow> n \<le> size_m a \<Longrightarrow> n \<le> size_m b \<Longrightarrow>
     memcmp (data_m a) (data_m b) n = Inr (cmp_bytes (take n (bytes a)) (take n (bytes b)))"
  by (simp add: memcmp_def valid_def bytes_def min_def)

lemma compare_sign:
  assumes "valid a" "valid b"
  shows "\<exists>r. Slice_compare a b = Inr r \<and> (r < 0 \<longleftrightarrow> bytes a < bytes b) \<and>
           (r = 0 \<longleftrightarrow> bytes a = bytes b) \<and> (0 < r \<longleftrightarrow> bytes b < bytes a)"
proof -
  define m where "m = (if size_m a < size_m b then size_m a else size_m b)"
  define p where "p = take m (bytes a)"
  define q where "q = take m (bytes b)"
  define u where "u = drop m (bytes a)"
  define v where "v = drop m (bytes b)"
  have la: "length (bytes a) = size_m a" and lb: "length (bytes b) = size_m b"
    using assms by (simp_all add: length_bytes)
  have m: "m \<le> size_m a" "m \<le> size_m b" by (simp_all add: m_def)
  have len: "length p = length q" using m la lb by (simp add: p_def q_def)
  have ab: "bytes a = p @ u" "bytes b = q @ v" by (simp_all add: p_def q_def u_def v_def)
  have uv: "u < v \<longleftrightarrow> size_m a < size_m b" "v < u \<longleftrightarrow> size_m b < size_m a"
    "u = v \<longleftrightarrow> size_m a = size_m b"
    using la lb by (auto simp: u_def v_def m_def Nil_less_iff)
  have mc: "memcmp (data_m a) (data_m b) m = Inr (cmp_bytes p q)"
    using memcmp_bytes[OF assms m] by (simp add: p_def q_def)
  define r where "r = (if cmp_bytes p q = 0
               then (if size_m a < size_m b then - 1
                     else if size_m a > size_m b then 1
                     else cmp_bytes p q)
               else cmp_bytes p q)"
  have c: "Slice_compare a b = Inr r"
    using mc by (simp add: Slice_compare_def m_def[symmetric] r_def)
  have lt: "bytes a < bytes b \<longleftrightarrow> p < q \<or> (p = q \<and> u < v)"
    and gt: "bytes b < bytes a \<longleftrightarrow> q < p \<or> (q = p \<and> v < u)"
    using len by (simp_all add: ab append_less_same_length)
  have "r < 0 \<longleftrightarrow> bytes a < bytes b"
    unfolding lt using cmp_bytes_neg[OF len] cmp_bytes_eq0[OF len] uv by (auto simp: r_def)
  moreover have "0 < r \<longleftrightarrow> bytes b < bytes a"
    unfolding gt using cmp_bytes_pos[OF len] cmp_bytes_eq0[OF len] uv by (auto simp: r_def)
  moreover have "r = 0 \<longleftrightarrow> bytes a = bytes b"
    using cmp_bytes_eq0[OF len] uv len by (auto simp: r_def ab)
  ultimately show ?thesis using c by blast
qed


lemma less_string_lexord:
  "(xs::string) < ys \<longleftrightarrow> (xs, ys) \<in> lexord {(c, d). (of_char c :: nat) < of_char d}"
  by (simp add: list_less_def less_char_def)

lemma Slice_less_iff: "valid a \<Longrightarrow> valid b \<Longrightarrow> Slice_less a b \<longleftrightarrow> bytes a < bytes b"
  using compare_sign[of a b] by (auto simp: Slice_less_def)

lemma compare_unfold:
  assumes "valid a" "valid b"
  shows "Slice_compare a b =
     Inr (if cmp_bytes (take (min (size_m a) (size_m b)) (bytes a))
                       (take (min (size_m a) (size_m b)) (bytes b)) = 0
          then (if size_m a < size_m b then - 1
                else if size_m a > size_m b then 1
                else 0)
          else cmp_bytes (take (min (size_m a) (size_m b)) (bytes a))
                         (take (min (size_m a) (size_m b)) (bytes b)))"
proof -
  have mm: "(if size_m a < size_m b then size_m a else size_m b) = min (size_m a) (size_m b)"
    by (simp add: min_def)
  have mc: "memcmp (data_m a) (data_m b) (min (size_m a) (size_m b)) =
      Inr (cmp_bytes (take (min (size_m a) (size_m b)) (bytes a))
                     (take (min (size_m a) (size_m b)) (bytes b)))"
    using memcmp_bytes[OF assms, of "min (size_m a) (size_m b)"] by simp
  show ?thesis
    unfolding Slice_compare_def mm Let_def mc by simp
qed

lemma compare_short:
  assumes "valid a" "valid b" and r: "Slice_compare a b = Inr r"
  shows "take (min (size_m a) (size_m b)) (bytes a) \<noteq> take (min (size_m a) (size_m b)) (bytes b) \<longrightarrow>
           r = cmp_bytes (take (min (size_m a) (size_m b)) (bytes a))
                         (take (min (size_m a) (size_m b)) (bytes b))"
    and "take (min (size_m a) (size_m b)) (bytes a) = take (min (size_m a) (size_m b)) (bytes b) \<longrightarrow>
           (size_m a < size_m b \<longrightarrow> r = - 1) \<and>
           (size_m b < size_m a \<longrightarrow> r = 1) \<and>
           (size_m a = size_m b \<longrightarrow> r = 0)"
proof -
  have len: "length (take (min (size_m a) (size_m b)) (bytes a)) =
      length (take (min (size_m a) (size_m b)) (bytes b))"
    using assms(1,2) by (simp add: length_bytes)
  note z = cmp_bytes_eq0[OF len]
  note u = r[unfolded compare_unfold[OF assms(1,2)]]
  show "take (min (size_m a) (size_m b)) (bytes a) \<noteq> take (min (size_m a) (size_m b)) (bytes b) \<longrightarrow>
           r = cmp_bytes (take (min (size_m a) (size_m b)) (bytes a))
                         (take (min (size_m a) (size_m b)) (bytes b))"
    using u z by auto
  show "take (min (size_m a) (size_m b)) (bytes a) = take (min (size_m a) (size_m b)) (bytes b) \<longrightarrow>
           (size_m a < size_m b \<longrightarrow> r = - 1) \<and>
           (size_m b < size_m a \<longrightarrow> r = 1) \<and>
           (size_m a = size_m b \<longrightarrow> r = 0)"
    using u z by auto
qed

section \<open>The order of slices\<close>

text \<open>
  Claim C1. For slices that honour the storage contract, \<^verbatim>\<open>A.compare(B)\<close> returns a value
  (no fault) whose sign is that of the lexicographic order of the designated bytes, read as
  unsigned: negative exactly when the bytes of \<open>A\<close> come before those of \<open>B\<close>, zero exactly when
  they are the same bytes, positive exactly when they come after. The raw comparison runs over
  the shorter of the two lengths and decides when it finds a difference; when it finds none,
  the shorter slice sorts first and equal lengths give 0. A strict prefix sorts before the
  slice it is a prefix of. The relation \<^verbatim>\<open>A.compare(B) < 0\<close> is a strict total order on
  byte spans: irreflexive, transitive, asymmetric, and any two spans are related one way or
  the other unless they hold the same bytes.
\<close>

theorem Slice_compare_lexicographic:
  assumes "valid A" and "valid B" and "valid C"
  shows "(\<exists>r. Slice_compare A B = Inr r \<and>
            (r < 0 \<longleftrightarrow> (bytes A, bytes B) \<in> lexord {(c, d). (of_char c :: nat) < of_char d}) \<and>
            (r = 0 \<longleftrightarrow> bytes A = bytes B) \<and>
            (0 < r \<longleftrightarrow> (bytes B, bytes A) \<in> lexord {(c, d). (of_char c :: nat) < of_char d}) \<and>
            (take (min (size_m A) (size_m B)) (bytes A) \<noteq> take (min (size_m A) (size_m B)) (bytes B) \<longrightarrow>
               r = cmp_bytes (take (min (size_m A) (size_m B)) (bytes A))
                             (take (min (size_m A) (size_m B)) (bytes B))) \<and>
            (take (min (size_m A) (size_m B)) (bytes A) = take (min (size_m A) (size_m B)) (bytes B) \<longrightarrow>
               (size_m A < size_m B \<longrightarrow> r = - 1) \<and>
               (size_m B < size_m A \<longrightarrow> r = 1) \<and>
               (size_m A = size_m B \<longrightarrow> r = 0))) \<and>
         (strict_prefix (bytes A) (bytes B) \<longrightarrow> Slice_less A B) \<and>
         \<not> Slice_less A A \<and>
         (Slice_less A B \<longrightarrow> Slice_less B C \<longrightarrow> Slice_less A C) \<and>
         (Slice_less A B \<or> bytes A = bytes B \<or> Slice_less B A) \<and>
         \<not> (Slice_less A B \<and> Slice_less B A) \<and>
         \<not> (Slice_less A B \<and> bytes A = bytes B)"
proof -
  obtain r where r: "Slice_compare A B = Inr r"
    and s: "r < 0 \<longleftrightarrow> bytes A < bytes B" "r = 0 \<longleftrightarrow> bytes A = bytes B"
      "0 < r \<longleftrightarrow> bytes B < bytes A"
    using compare_sign[OF assms(1,2)] by blast
  have first: "\<exists>r. Slice_compare A B = Inr r \<and>
            (r < 0 \<longleftrightarrow> (bytes A, bytes B) \<in> lexord {(c, d). (of_char c :: nat) < of_char d}) \<and>
            (r = 0 \<longleftrightarrow> bytes A = bytes B) \<and>
            (0 < r \<longleftrightarrow> (bytes B, bytes A) \<in> lexord {(c, d). (of_char c :: nat) < of_char d}) \<and>
            (take (min (size_m A) (size_m B)) (bytes A) \<noteq> take (min (size_m A) (size_m B)) (bytes B) \<longrightarrow>
               r = cmp_bytes (take (min (size_m A) (size_m B)) (bytes A))
                             (take (min (size_m A) (size_m B)) (bytes B))) \<and>
            (take (min (size_m A) (size_m B)) (bytes A) = take (min (size_m A) (size_m B)) (bytes B) \<longrightarrow>
               (size_m A < size_m B \<longrightarrow> r = - 1) \<and>
               (size_m B < size_m A \<longrightarrow> r = 1) \<and>
               (size_m A = size_m B \<longrightarrow> r = 0))"
    using r s compare_short[OF assms(1,2) r] unfolding less_string_lexord by blast
  have pre: "strict_prefix (bytes A) (bytes B) \<longrightarrow> Slice_less A B"
    using assms by (auto simp: Slice_less_iff strict_prefix_def prefix_def Nil_less_iff
        append_less_same_length[of "bytes A" "bytes A" "[]", simplified])
  have ord: "\<not> Slice_less A A" "Slice_less A B \<longrightarrow> Slice_less B C \<longrightarrow> Slice_less A C"
    "Slice_less A B \<or> bytes A = bytes B \<or> Slice_less B A"
    "\<not> (Slice_less A B \<and> Slice_less B A)" "\<not> (Slice_less A B \<and> bytes A = bytes B)"
    using assms by (auto simp: Slice_less_iff)
  show ?thesis using first pre ord by blast
qed


theorem Slice_compare_lexicographic_witness:
  "valid (Slice_ptr_len ''hello'' 2) \<and> valid (Slice_string ''hello'') \<and>
   valid (Slice_string ''help'') \<and>
   bytes (Slice_ptr_len ''hello'' 2) = ''he'' \<and>
   strict_prefix (bytes (Slice_ptr_len ''hello'' 2)) (bytes (Slice_string ''hello'')) \<and>
   Slice_compare (Slice_ptr_len ''hello'' 2) (Slice_string ''hello'') = Inr (- 1) \<and>
   Slice_less (Slice_ptr_len ''hello'' 2) (Slice_string ''hello'') \<and>
   Slice_less (Slice_string ''hello'') (Slice_string ''help'') \<and>
   Slice_less (Slice_ptr_len ''hello'' 2) (Slice_string ''help'')"
proof -
  have v: "valid (Slice_ptr_len ''hello'' 2)" "valid (Slice_string ''hello'')"
    "valid (Slice_string ''help'')"
    by (simp_all add: valid_def Slice_ptr_len_def Slice_string_def)
  have b: "bytes (Slice_ptr_len ''hello'' 2) = ''he''"
    by (simp add: bytes_def Slice_ptr_len_def)
  have p: "strict_prefix (bytes (Slice_ptr_len ''hello'' 2)) (bytes (Slice_string ''hello''))"
    by (simp add: bytes_def Slice_ptr_len_def Slice_string_def)
  have l: "Slice_less (Slice_string ''hello'') (Slice_string ''help'')"
    by (simp add: Slice_less_def Slice_compare_def memcmp_def Slice_string_def)
  have c: "Slice_compare (Slice_ptr_len ''hello'' 2) (Slice_string ''hello'') = Inr (- 1)"
    by (simp add: Slice_compare_def memcmp_def Slice_string_def Slice_ptr_len_def)
  note t = Slice_compare_lexicographic[OF v]
  have l1: "Slice_less (Slice_ptr_len ''hello'' 2) (Slice_string ''hello'')"
    using t p by blast
  have l2: "Slice_less (Slice_ptr_len ''hello'' 2) (Slice_string ''help'')"
    using t l1 l by blast
  show ?thesis
    using v b p c l1 l l2 by blast
qed

section \<open>Equality of slices\<close>

lemma Slice_eq_unfold:
  assumes "valid a" "valid b"
  shows "Slice_eq a b = Inr (size_m a = size_m b \<and> bytes a = bytes b)"
proof (cases "size_m a = size_m b")
  case True
  have mc: "memcmp (data_m a) (data_m b) (size_m a) = Inr (cmp_bytes (bytes a) (bytes b))"
    using memcmp_bytes[OF assms, of "size_m a"] True assms by (simp add: length_bytes)
  have len: "length (bytes a) = length (bytes b)"
    using assms True by (simp add: length_bytes)
  have "Slice_eq a b = Inr (cmp_bytes (bytes a) (bytes b) = 0)"
    unfolding Slice_eq_def if_P[OF True] mc by simp
  then show ?thesis
    using True by (simp add: cmp_bytes_eq0[OF len])
next
  case False
  then show ?thesis by (simp add: Slice_eq_def)
qed

lemma Slice_index_in_range:
  "valid s \<Longrightarrow> n < size_m s \<Longrightarrow> Slice_index s n = Inr (bytes s ! n)"
  by (simp add: Slice_index_def valid_def bytes_def)

lemma bytes_eq_iff_index:
  assumes "valid a" "valid b" "size_m a = size_m b"
  shows "bytes a = bytes b \<longleftrightarrow> (\<forall>i < size_m a. Slice_index a i = Slice_index b i)"
  using assms by (simp add: list_eq_iff_nth_eq length_bytes Slice_index_in_range)

text \<open>
  Claim C2. For slices that honour the storage contract, neither \<^verbatim>\<open>A.compare(B)\<close> nor
  \<^verbatim>\<open>A == B\<close> faults, and three statements are equivalent: \<^verbatim>\<open>A.compare(B) == 0\<close>;
  \<^verbatim>\<open>A == B\<close>; the sizes are equal and the bytes agree at every position (read through the
  indexed access, or as the designated byte sequences).
\<close>

theorem Slice_compare_zero_iff_equal:
  assumes "valid A" and "valid B"
  shows "(Slice_compare A B = Inr 0 \<longleftrightarrow> Slice_eq A B = Inr True) \<and>
         (Slice_eq A B = Inr True \<longleftrightarrow>
            size_m A = size_m B \<and> (\<forall>i < size_m A. Slice_index A i = Slice_index B i)) \<and>
         (Slice_eq A B = Inr True \<longleftrightarrow> size_m A = size_m B \<and> bytes A = bytes B) \<and>
         (\<exists>r. Slice_compare A B = Inr r) \<and> (\<exists>e. Slice_eq A B = Inr e)"
proof -
  obtain r where r: "Slice_compare A B = Inr r" and z: "r = 0 \<longleftrightarrow> bytes A = bytes B"
    using compare_sign[OF assms] by blast
  have sz: "bytes A = bytes B \<Longrightarrow> size_m A = size_m B"
    using length_bytes[OF assms(1)] length_bytes[OF assms(2)] by simp
  have e: "Slice_eq A B = Inr True \<longleftrightarrow> size_m A = size_m B \<and> bytes A = bytes B"
    by (simp add: Slice_eq_unfold[OF assms])
  have c: "Slice_compare A B = Inr 0 \<longleftrightarrow> size_m A = size_m B \<and> bytes A = bytes B"
    using r z sz by auto
  have i: "size_m A = size_m B \<and> bytes A = bytes B \<longleftrightarrow>
      size_m A = size_m B \<and> (\<forall>i < size_m A. Slice_index A i = Slice_index B i)"
    using bytes_eq_iff_index[OF assms] by blast
  have x: "\<exists>e. Slice_eq A B = Inr e"
    by (simp add: Slice_eq_unfold[OF assms])
  show ?thesis
    using r e c i x by blast
qed

theorem Slice_compare_zero_iff_equal_witness:
  "valid (Slice_ptr_len ''hello'' 2) \<and> valid (Slice_string ''he'') \<and>
   Slice_compare (Slice_ptr_len ''hello'' 2) (Slice_string ''he'') = Inr 0 \<and>
   Slice_eq (Slice_ptr_len ''hello'' 2) (Slice_string ''he'') = Inr True \<and>
   size_m (Slice_ptr_len ''hello'' 2) = size_m (Slice_string ''he'') \<and>
   bytes (Slice_ptr_len ''hello'' 2) = bytes (Slice_string ''he'') \<and>
   Slice_index (Slice_ptr_len ''hello'' 2) 0 = Slice_index (Slice_string ''he'') 0 \<and>
   Slice_index (Slice_ptr_len ''hello'' 2) 1 = Slice_index (Slice_string ''he'') 1"
proof -
  have v: "valid (Slice_ptr_len ''hello'' 2)" "valid (Slice_string ''he'')"
    by (simp_all add: valid_def Slice_ptr_len_def Slice_string_def)
  have c: "Slice_compare (Slice_ptr_len ''hello'' 2) (Slice_string ''he'') = Inr 0"
    by (simp add: Slice_compare_def memcmp_def Slice_ptr_len_def Slice_string_def)
  note t = Slice_compare_zero_iff_equal[OF v]
  have e: "Slice_eq (Slice_ptr_len ''hello'' 2) (Slice_string ''he'') = Inr True"
    using t c by blast
  have s: "size_m (Slice_ptr_len ''hello'' 2) = size_m (Slice_string ''he'')"
    "bytes (Slice_ptr_len ''hello'' 2) = bytes (Slice_string ''he'')"
    using t e by blast+
  have i: "Slice_index (Slice_ptr_len ''hello'' 2) 0 = Slice_index (Slice_string ''he'') 0"
    "Slice_index (Slice_ptr_len ''hello'' 2) 1 = Slice_index (Slice_string ''he'') 1"
    by (simp_all add: Slice_index_def Slice_ptr_len_def Slice_string_def)
  show ?thesis
    using v c e s i by blast
qed

section \<open>Dropping a prefix and reading a byte\<close>

text \<open>
  Claim C7. For a slice that honours the storage contract and \<open>n \<le> size\<close>,
  \<^verbatim>\<open>remove_prefix(n)\<close> returns a slice whose storage is the old storage from offset \<open>n\<close>
  (the pointer advanced by \<open>n\<close>), whose size is the old size less \<open>n\<close>, and whose bytes are
  the old bytes from offset \<open>n\<close> to the end; the contract still holds for it. For \<open>n > size\<close>
  the assertion fails.
\<close>

theorem remove_prefix_tail:
  assumes "valid S"
  shows "(n \<le> size_m S \<longrightarrow>
            (\<exists>S'. remove_prefix S n = Inr S' \<and> valid S' \<and>
                   bytes S' = drop n (bytes S) \<and> size_m S' = size_m S - n \<and>
                   data_m S' = drop n (data_m S))) \<and>
         (size_m S < n \<longrightarrow> remove_prefix S n = Inl AssertionFailure)"
  using assms by (auto simp: remove_prefix_def valid_def bytes_def drop_take)

theorem remove_prefix_tail_witness:
  "valid (Slice_string ''hello'') \<and> (2::nat) \<le> size_m (Slice_string ''hello'') \<and>
   remove_prefix (Slice_string ''hello'') 2 = Inr \<lparr>data_m = ''llo'', size_m = 3\<rparr> \<and>
   bytes \<lparr>data_m = ''llo'', size_m = 3\<rparr> = ''llo'' \<and>
   size_m (Slice_string ''hello'') < 6 \<and>
   remove_prefix (Slice_string ''hello'') 6 = Inl AssertionFailure"
proof -
  have v: "valid (Slice_string ''hello'')"
    by (simp add: valid_def Slice_string_def)
  have s: "(2::nat) \<le> size_m (Slice_string ''hello'')" "size_m (Slice_string ''hello'') < 6"
    by (simp_all add: Slice_string_def)
  have a: "remove_prefix (Slice_string ''hello'') 6 = Inl AssertionFailure"
    using remove_prefix_tail[OF v, of 6] s by blast
  have r: "remove_prefix (Slice_string ''hello'') 2 = Inr \<lparr>data_m = ''llo'', size_m = 3\<rparr>"
    by (simp add: remove_prefix_def Slice_string_def)
  have b: "bytes \<lparr>data_m = ''llo'', size_m = 3\<rparr> = ''llo''"
    using remove_prefix_tail[OF v, of 2] s r by (simp add: bytes_def Slice_string_def)
  show ?thesis
    using v s a r b by blast
qed

text \<open>
  Claim C8. For a slice that honours the storage contract, the indexed access at \<open>n < size\<close>
  returns the byte at offset \<open>n\<close> and the assertion does not fire; at \<open>n \<ge> size\<close> the
  assertion fails: no byte is returned, neither a clamped one nor any other.
\<close>

theorem Slice_index_checked:
  assumes "valid S"
  shows "(n < size_m S \<longrightarrow>
            Slice_index S n = Inr (bytes S ! n) \<and> Slice_index S n = Inr (data_m S ! n) \<and>
            Slice_index S n \<noteq> Inl AssertionFailure) \<and>
         (size_m S \<le> n \<longrightarrow> Slice_index S n = Inl AssertionFailure)"
  using assms by (auto simp: Slice_index_def valid_def bytes_def)

theorem Slice_index_checked_witness:
  "valid (Slice_string ''hello'') \<and> (1::nat) < size_m (Slice_string ''hello'') \<and>
   Slice_index (Slice_string ''hello'') 1 = Inr (CHR ''e'') \<and>
   size_m (Slice_string ''hello'') \<le> 5 \<and>
   Slice_index (Slice_string ''hello'') 5 = Inl AssertionFailure"
proof -
  have v: "valid (Slice_string ''hello'')"
    by (simp add: valid_def Slice_string_def)
  have s: "(1::nat) < size_m (Slice_string ''hello'')" "size_m (Slice_string ''hello'') \<le> 5"
    by (simp_all add: Slice_string_def)
  have a: "Slice_index (Slice_string ''hello'') 5 = Inl AssertionFailure"
    using Slice_index_checked[OF v, of 5] s by blast
  have "Slice_index (Slice_string ''hello'') 1 = Inr (data_m (Slice_string ''hello'') ! 1)"
    using Slice_index_checked[OF v, of 1] s by blast
  then have b: "Slice_index (Slice_string ''hello'') 1 = Inr (CHR ''e'')"
    by (simp add: Slice_string_def)
  show ?thesis
    using v s a b by blast
qed

section \<open>The decimal rendering\<close>

lemma to_digits_small: "n < 10 \<Longrightarrow> to_digits n = [char_of (48 + n)]"
  by (simp add: to_digits.simps)

lemma to_digits_large:
  "\<not> n < 10 \<Longrightarrow> to_digits n = to_digits (n div 10) @ [char_of (48 + n mod 10)]"
  by (subst to_digits.simps) simp

lemma of_char_digit: "d < 10 \<Longrightarrow> of_char (char_of (48 + d :: nat)) = 48 + d"
  by simp

lemma digit_not_char:
  assumes "d < 10" and "(of_char c :: nat) < 48"
  shows "char_of (48 + d :: nat) \<noteq> c"
proof
  assume "char_of (48 + d) = c"
  then have "(of_char (char_of (48 + d)) :: nat) = of_char c" by simp
  then show False using assms by (simp add: of_char_digit)
qed

lemma digit_not_bar: "d < 10 \<Longrightarrow> char_of (48 + d :: nat) \<noteq> CHR ''|''"
proof
  assume d: "d < 10" and "char_of (48 + d) = CHR ''|''"
  then have "(of_char (char_of (48 + d)) :: nat) = of_char CHR ''|''" by simp
  then show False using d by (simp add: of_char_digit)
qed

lemma digits_value_snoc:
  "digits_value (ds @ [c]) = 10 * digits_value ds + (of_char c - 48)"
  by (simp add: digits_value_def)

lemma digits_value_to_digits: "digits_value (to_digits n) = n"
proof (induction n rule: to_digits.induct)
  case (1 n)
  show ?case
  proof (cases "n < 10")
    case True
    then show ?thesis by (simp add: to_digits_small digits_value_def)
  next
    case False
    then show ?thesis
      using "1.IH" by (simp add: to_digits_large digits_value_snoc)
  qed
qed

lemma to_digits_chars:
  "to_digits n \<noteq> [] \<and> CHR ''-'' \<notin> set (to_digits n) \<and> CHR ''|'' \<notin> set (to_digits n)"
proof (induction n rule: to_digits.induct)
  case (1 n)
  show ?case
  proof (cases "n < 10")
    case True
    then show ?thesis
      using digit_not_char[of n "CHR ''-''"] digit_not_bar[of n]
      by (auto simp: to_digits_small)
  next
    case False
    then show ?thesis
      using "1.IH" digit_not_char[of "n mod 10" "CHR ''-''"] digit_not_bar[of "n mod 10"]
      by (auto simp: to_digits_large)
  qed
qed

lemma decimal_value_to_string: "decimal_value (to_string v) = sint v"
proof (cases "sint v < 0")
  case True
  then show ?thesis
    by (simp add: to_string_def decimal_value_def digits_value_to_digits)
next
  case False
  obtain c cs where cs: "to_digits (nat (sint v)) = c # cs"
    using to_digits_chars[of "nat (sint v)"] by (cases "to_digits (nat (sint v))") auto
  have "c \<noteq> CHR ''-''"
    using to_digits_chars[of "nat (sint v)"] cs by auto
  then have "decimal_value (to_digits (nat (sint v))) = int (digits_value (to_digits (nat (sint v))))"
    by (simp add: decimal_value_def cs)
  then show ?thesis
    using False by (simp add: to_string_def digits_value_to_digits)
qed

lemma to_string_inject: "to_string v = to_string w \<longleftrightarrow> v = w"
  using decimal_value_to_string[of v] decimal_value_to_string[of w]
    signed_word_eqI[of v w, where ?'a = int] by auto

lemma to_string_no_bar: "CHR ''|'' \<notin> set (to_string v)"
  using to_digits_chars by (simp add: to_string_def)

lemma split_at_first:
  "x \<notin> set xs \<Longrightarrow> takeWhile (\<lambda>c. c \<noteq> x) (xs @ x # ys) = xs"
  "x \<notin> set xs \<Longrightarrow> dropWhile (\<lambda>c. c \<noteq> x) (xs @ x # ys) = x # ys"
  by (induction xs) auto

lemma encoding_split:
  "takeWhile (\<lambda>c. c \<noteq> CHR ''|'') (to_string s @ CHR ''|'' # to_string d) = to_string s"
  "dropWhile (\<lambda>c. c \<noteq> CHR ''|'') (to_string s @ CHR ''|'' # to_string d) = CHR ''|'' # to_string d"
  using to_string_no_bar[of s] by (simp_all add: split_at_first)

lemma encoding_inject:
  "to_string s1 @ CHR ''|'' # to_string d1 = to_string s2 @ CHR ''|'' # to_string d2 \<longleftrightarrow>
     s1 = s2 \<and> d1 = d2"
proof
  assume e: "to_string s1 @ CHR ''|'' # to_string d1 = to_string s2 @ CHR ''|'' # to_string d2"
  have "to_string s1 = to_string s2"
    using arg_cong[OF e, of "takeWhile (\<lambda>c. c \<noteq> CHR ''|'')"] by (simp only: encoding_split)
  moreover have "to_string d1 = to_string d2"
    using arg_cong[OF e, of "dropWhile (\<lambda>c. c \<noteq> CHR ''|'')"] by (simp only: encoding_split) simp
  ultimately show "s1 = s2 \<and> d1 = d2" by (simp add: to_string_inject)
qed simp

lemma to_string_examples:
  "to_string 1 = ''1''" "to_string 2 = ''2''" "to_string 7 = ''7''" "to_string 9 = ''9''"
  "to_string 10 = ''10''" "to_string (- 1) = ''-1''" "to_string 0 = ''0''"
  by code_simp+

lemma valid_Slice_v_new: "valid (Slice_v_new s d)"
  by (simp add: valid_def Slice_v_new_def Let_def)

lemma bytes_Slice_v_new: "bytes (Slice_v_new s d) = to_string s @ CHR ''|'' # to_string d"
  by (simp add: bytes_def Slice_v_new_def Let_def)

section \<open>Construction of a \<^verbatim>\<open>Slice_v\<close>\<close>

text \<open>
  Claim C9. For every pair of 32-bit integers \<open>(s, d)\<close>, the key built by
  \<^verbatim>\<open>Slice_v(s, d)\<close> has \<^verbatim>\<open>src() == s\<close> and \<^verbatim>\<open>dst() == d\<close>; the string that it owns is the
  decimal rendering of \<open>s\<close>, the character \<open>|\<close>, and the decimal rendering of \<open>d\<close>, where a
  rendering read back as a decimal number gives the integer, and the text before the first
  \<open>|\<close> is the rendering of \<open>s\<close> and the text after it that of \<open>d\<close>. The inherited pointer
  and length reference that string: the bytes that the view designates are the string. In
  particular \<^verbatim>\<open>Slice_v(10, 2)\<close> has \<^verbatim>\<open>src() == 10\<close>, \<^verbatim>\<open>dst() == 2\<close> and the encoding
  \<^verbatim>\<open>10|2\<close>.
\<close>

theorem Slice_v_new_encoding:
  "src (Slice_v_new s d) = s \<and> dst (Slice_v_new s d) = d \<and>
   s_m (Slice_v_new s d) = to_string s @ ''|'' @ to_string d \<and>
   decimal_value (to_string s) = sint s \<and> decimal_value (to_string d) = sint d \<and>
   takeWhile (\<lambda>c. c \<noteq> CHR ''|'') (s_m (Slice_v_new s d)) = to_string s \<and>
   dropWhile (\<lambda>c. c \<noteq> CHR ''|'') (s_m (Slice_v_new s d)) = ''|'' @ to_string d \<and>
   data_m (Slice_v_new s d) = s_m (Slice_v_new s d) \<and>
   size_m (Slice_v_new s d) = length (s_m (Slice_v_new s d)) \<and>
   bytes (Slice_v_new s d) = s_m (Slice_v_new s d) \<and>
   valid (Slice_v_new s d) \<and>
   src (Slice_v_new 10 2) = 10 \<and> dst (Slice_v_new 10 2) = 2 \<and>
   s_m (Slice_v_new 10 2) = ''10|2'' \<and> bytes (Slice_v_new 10 2) = ''10|2''"
proof -
  have a: "src (Slice_v_new s d) = s" "dst (Slice_v_new s d) = d"
    "s_m (Slice_v_new s d) = to_string s @ ''|'' @ to_string d"
    "data_m (Slice_v_new s d) = s_m (Slice_v_new s d)"
    "size_m (Slice_v_new s d) = length (s_m (Slice_v_new s d))"
    for s d
    by (simp_all add: src_def dst_def Slice_v_new_def Let_def)
  have b: "bytes (Slice_v_new s d) = s_m (Slice_v_new s d)" for s d
    by (simp add: bytes_def Slice_v_new_def Let_def)
  have t: "takeWhile (\<lambda>c. c \<noteq> CHR ''|'') (s_m (Slice_v_new s d)) = to_string s"
    "dropWhile (\<lambda>c. c \<noteq> CHR ''|'') (s_m (Slice_v_new s d)) = ''|'' @ to_string d"
    using encoding_split[of s d] by (simp_all add: Slice_v_new_def Let_def)
  have e: "s_m (Slice_v_new 10 2) = ''10|2''"
    by (simp add: a to_string_examples)
  have e': "bytes (Slice_v_new 10 2) = ''10|2''"
    by (simp only: b e)
  show ?thesis
    using a[of s d] a(1,2)[of 10 2] b[of s d] t e e' valid_Slice_v_new[of s d]
      decimal_value_to_string[of s] decimal_value_to_string[of d]
    by blast
qed

section \<open>The order of \<^verbatim>\<open>Slice_v\<close> keys\<close>

lemma sint_less_cases: "sint (a::32 word) < sint b \<or> a = b \<or> sint b < sint a"
  using signed_word_eqI[of a b, where ?'a = int] by auto

text \<open>
  Claim C3. \<^verbatim>\<open>Slice_v::compare\<close> is the three-way comparison of the pairs of signed
  integers: negative exactly when the source is smaller or the sources are equal and the
  destination is smaller, zero exactly when both integers are equal, positive in the mirrored
  cases; its values are \<open>-1\<close>, \<open>0\<close> and \<open>1\<close>. The destination \<open>-1\<close> is compared as the integer
  \<open>-1\<close>: \<open>(1, -1)\<close> sorts before \<open>(1, 7)\<close> and after \<open>(1, -2)\<close>, and is not equal to either in
  this order. In particular \<open>(1, 5)\<close> sorts before \<open>(2, 0)\<close>, \<open>(3, 2)\<close> before \<open>(3, 5)\<close>, and
  \<open>(3, 5)\<close> compares equal to \<open>(3, 5)\<close>.
\<close>

theorem Slice_v_compare_numeric:
  "(Slice_v_compare A B < 0 \<longleftrightarrow>
      sint (src A) < sint (src B) \<or> (src A = src B \<and> sint (dst A) < sint (dst B))) \<and>
   (Slice_v_compare A B = 0 \<longleftrightarrow> src A = src B \<and> dst A = dst B) \<and>
   (0 < Slice_v_compare A B \<longleftrightarrow>
      sint (src B) < sint (src A) \<or> (src A = src B \<and> sint (dst B) < sint (dst A))) \<and>
   (Slice_v_compare A B = - 1 \<or> Slice_v_compare A B = 0 \<or> Slice_v_compare A B = 1) \<and>
   Slice_v_compare (Slice_v_new 1 5) (Slice_v_new 2 0) < 0 \<and>
   Slice_v_compare (Slice_v_new 3 2) (Slice_v_new 3 5) < 0 \<and>
   Slice_v_compare (Slice_v_new 3 5) (Slice_v_new 3 5) = 0 \<and>
   Slice_v_compare (Slice_v_new 1 (- 1)) (Slice_v_new 1 7) = - 1 \<and>
   Slice_v_compare (Slice_v_new 1 7) (Slice_v_new 1 (- 1)) = 1 \<and>
   Slice_v_compare (Slice_v_new 1 (- 1)) (Slice_v_new 1 (- 2)) = 1"
proof -
  have g: "(Slice_v_compare A B < 0 \<longleftrightarrow>
      sint (src A) < sint (src B) \<or> (src A = src B \<and> sint (dst A) < sint (dst B))) \<and>
   (Slice_v_compare A B = 0 \<longleftrightarrow> src A = src B \<and> dst A = dst B) \<and>
   (0 < Slice_v_compare A B \<longleftrightarrow>
      sint (src B) < sint (src A) \<or> (src A = src B \<and> sint (dst B) < sint (dst A))) \<and>
   (Slice_v_compare A B = - 1 \<or> Slice_v_compare A B = 0 \<or> Slice_v_compare A B = 1)"
    using sint_less_cases[of "src_m A" "src_m B"] sint_less_cases[of "dst_m A" "dst_m B"]
    by (auto simp: Slice_v_compare_def src_def dst_def)
  have e: "Slice_v_compare (Slice_v_new 1 5) (Slice_v_new 2 0) < 0"
    "Slice_v_compare (Slice_v_new 3 2) (Slice_v_new 3 5) < 0"
    "Slice_v_compare (Slice_v_new 3 5) (Slice_v_new 3 5) = 0"
    "Slice_v_compare (Slice_v_new 1 (- 1)) (Slice_v_new 1 7) = - 1"
    "Slice_v_compare (Slice_v_new 1 7) (Slice_v_new 1 (- 1)) = 1"
    "Slice_v_compare (Slice_v_new 1 (- 1)) (Slice_v_new 1 (- 2)) = 1"
    by (simp_all add: Slice_v_compare_def Slice_v_new_def Let_def)
  show ?thesis using g e by blast
qed

lemma memcmp_first_differ:
  "c1 \<noteq> c2 \<Longrightarrow> 0 < n \<Longrightarrow> n \<le> Suc (length s1) \<Longrightarrow> n \<le> Suc (length s2) \<Longrightarrow>
     memcmp (c1 # s1) (c2 # s2) n = Inr (int (of_char c1) - int (of_char c2))"
  by (cases n) (simp_all add: memcmp_def)

text \<open>
  Claim C5. The numeric order of the keys is not the byte order of their encodings: for any
  destinations, the key with source 9 sorts before the key with source 10 under
  \<^verbatim>\<open>Slice_v::compare\<close>, whereas \<^verbatim>\<open>Slice::compare\<close> on the same two objects returns a positive
  value, the encoding that starts with \<open>9\<close> sorting after the one that starts with \<open>10\<close>.
\<close>

theorem numeric_order_differs_from_bytes:
  "Slice_v_compare (Slice_v_new 9 d1) (Slice_v_new 10 d2) < 0 \<and>
   (\<exists>r. Slice_compare (Slice_v_new 9 d1) (Slice_v_new 10 d2) = Inr r \<and> 0 < r) \<and>
   Slice_less (Slice_v_new 10 d2) (Slice_v_new 9 d1) \<and>
   \<not> Slice_less (Slice_v_new 9 d1) (Slice_v_new 10 d2) \<and>
   bytes (Slice_v_new 9 0) = ''9|0'' \<and> bytes (Slice_v_new 10 0) = ''10|0''"
proof -
  have n: "Slice_v_compare (Slice_v_new 9 d1) (Slice_v_new 10 d2) < 0"
    by (simp add: Slice_v_compare_def Slice_v_new_def Let_def)
  have c: "Slice_compare (Slice_v_new 9 d1) (Slice_v_new 10 d2) = Inr 8"
    by (simp add: Slice_compare_def Slice_v_new_def Let_def to_string_examples
        memcmp_first_differ)
  have c': "Slice_compare (Slice_v_new 10 d2) (Slice_v_new 9 d1) = Inr (- 8)"
    by (simp add: Slice_compare_def Slice_v_new_def Let_def to_string_examples
        memcmp_first_differ)
  have l: "Slice_less (Slice_v_new 10 d2) (Slice_v_new 9 d1)"
    "\<not> Slice_less (Slice_v_new 9 d1) (Slice_v_new 10 d2)"
    by (simp_all add: Slice_less_def c c')
  have b: "bytes (Slice_v_new 9 0) = ''9|0''" "bytes (Slice_v_new 10 0) = ''10|0''"
    by (simp_all add: bytes_Slice_v_new to_string_examples)
  show ?thesis using n c l b by simp
qed

section \<open>Equality of \<^verbatim>\<open>Slice_v\<close> keys\<close>

text \<open>
  The body of \<^verbatim>\<open>operator==(Slice_v, Slice_v&)\<close> is symmetric and reflexive, also on keys
  whose destination is \<open>-1\<close>; and the expression \<^verbatim>\<open>a == a\<close> is true on a constructed key
  whichever overload it resolves to.
\<close>

lemma Slice_v_eq_body_symmetric:
  "(Slice_v_eq A B \<longleftrightarrow> Slice_v_eq B A) \<and> Slice_v_eq A A \<and>
   Slice_v_eq (Slice_v_new s (- 1)) (Slice_v_new s (- 1)) \<and>
   reflp Slice_v_eq \<and> symp Slice_v_eq"
  by (auto simp: Slice_v_eq_def reflp_def symp_def)

lemma Slice_v_eq_call_reflexive:
  "Slice_v_eq_call (Slice_v_new s d) (Slice_v_new s d) b = Inr True"
  by (simp add: Slice_v_eq_call_def Slice_v_eq_def
      Slice_eq_unfold[OF valid_Slice_v_new valid_Slice_v_new])

text \<open>
  Claim C10. The claim says that \<^verbatim>\<open>A == B\<close> holds iff \<^verbatim>\<open>B == A\<close> for all keys. It does not:
  with \<^verbatim>\<open>Slice_v x(1, -1)\<close> and \<^verbatim>\<open>const Slice_v cy(1, 7)\<close>, the expression \<^verbatim>\<open>x == cy\<close>
  cannot reach \<^verbatim>\<open>operator==(Slice_v, Slice_v&)\<close>, compares the bytes \<^verbatim>\<open>1|-1\<close> and
  \<^verbatim>\<open>1|7\<close> and is false, whereas \<^verbatim>\<open>cy == x\<close> reaches it and is true through the wildcard.
  The body of that operator gives true in both directions.
\<close>

theorem Slice_v_eq_call_not_symmetric:
  "Slice_v_eq_call (Slice_v_new 1 (- 1)) (Slice_v_new 1 7) False = Inr False \<and>
   Slice_v_eq_call (Slice_v_new 1 7) (Slice_v_new 1 (- 1)) True = Inr True \<and>
   Slice_v_eq (Slice_v_new 1 (- 1)) (Slice_v_new 1 7) \<and>
   Slice_v_eq (Slice_v_new 1 7) (Slice_v_new 1 (- 1))"
proof -
  have b: "Slice_v_eq (Slice_v_new 1 (- 1)) (Slice_v_new 1 7)"
    "Slice_v_eq (Slice_v_new 1 7) (Slice_v_new 1 (- 1))"
    by (simp_all add: Slice_v_eq_def src_def dst_def Slice_v_new_def Let_def)
  have q: "Slice_eq (Slice_v_new 1 (- 1)) (Slice_v_new 1 7) = Inr False"
    by (simp add: Slice_eq_def Slice_v_new_def Let_def to_string_examples)
  have l: "Slice_v_eq_call (Slice_v_new 1 (- 1)) (Slice_v_new 1 7) False = Inr False"
    by (simp add: Slice_v_eq_call_def q)
  have r: "Slice_v_eq_call (Slice_v_new 1 7) (Slice_v_new 1 (- 1)) True = Inr True"
    by (simp add: Slice_v_eq_call_def b)
  show ?thesis using b l r by simp
qed

text \<open>
  Claim C6. \<^verbatim>\<open>operator==(Slice_v, Slice_v&)\<close> is not transitive, hence not an equivalence
  relation: \<open>(1, 5)\<close> equals \<open>(1, -1)\<close>, which equals \<open>(1, 7)\<close>, and \<open>(1, 5)\<close> does not equal
  \<open>(1, 7)\<close>.
\<close>

theorem Slice_v_eq_not_transitive:
  "Slice_v_eq (Slice_v_new 1 5) (Slice_v_new 1 (- 1)) \<and>
   Slice_v_eq (Slice_v_new 1 (- 1)) (Slice_v_new 1 7) \<and>
   \<not> Slice_v_eq (Slice_v_new 1 5) (Slice_v_new 1 7) \<and>
   \<not> transp Slice_v_eq \<and> \<not> equivp Slice_v_eq"
proof -
  have e: "Slice_v_eq (Slice_v_new 1 5) (Slice_v_new 1 (- 1))"
    "Slice_v_eq (Slice_v_new 1 (- 1)) (Slice_v_new 1 7)"
    "\<not> Slice_v_eq (Slice_v_new 1 5) (Slice_v_new 1 7)"
    by (simp_all add: Slice_v_eq_def src_def dst_def Slice_v_new_def Let_def)
  have t: "\<not> transp Slice_v_eq"
    using e by (auto dest: transpD)
  have "\<not> equivp Slice_v_eq"
    using t by (auto dest: equivp_transp intro: transpI)
  then show ?thesis using e t by blast
qed

text \<open>
  What \<^verbatim>\<open>operator!=(const Slice_v&, const Slice_v&)\<close> computes on constructed keys: the
  encodings determine the pairs, so it tells whether the two pairs differ. The value \<open>-1\<close> is
  not a wildcard for it.
\<close>

lemma Slice_v_ne_new:
  "Slice_v_ne (Slice_v_new s1 d1) (Slice_v_new s2 d2) = Inr (\<not> (s1 = s2 \<and> d1 = d2))"
proof -
  have "Slice_eq (Slice_v_new s1 d1) (Slice_v_new s2 d2) =
      Inr (size_m (Slice_v_new s1 d1) = size_m (Slice_v_new s2 d2) \<and>
           bytes (Slice_v_new s1 d1) = bytes (Slice_v_new s2 d2))"
    by (rule Slice_eq_unfold[OF valid_Slice_v_new valid_Slice_v_new])
  also have "\<dots> = Inr (s1 = s2 \<and> d1 = d2)"
    using encoding_inject[of s1 d1 s2 d2]
    by (auto simp: bytes_Slice_v_new)
  finally show ?thesis by (simp add: Slice_v_ne_def)
qed

text \<open>
  Claim C4. \<^verbatim>\<open>operator==(Slice_v, Slice_v&)\<close> holds for \<open>(1, -1)\<close> and \<open>(1, 7)\<close>, and fails for
  \<open>(1, 7)\<close> and \<open>(2, 7)\<close> and for \<open>(1, 7)\<close> and \<open>(1, 8)\<close>, as the claim says. The claim
  also says that \<^verbatim>\<open>!=\<close> is the negation of \<^verbatim>\<open>==\<close>. It is not: on \<open>(1, -1)\<close> and \<open>(1, 7)\<close>,
  which \<^verbatim>\<open>==\<close> holds equal, \<^verbatim>\<open>operator!=(const Slice_v&, const Slice_v&)\<close> returns true as
  well, since the comparison in its body is the base class's comparison of the bytes
  \<^verbatim>\<open>1|-1\<close> and \<^verbatim>\<open>1|7\<close>.
\<close>

theorem Slice_v_ne_is_not_negation_of_eq:
  "Slice_v_eq (Slice_v_new 1 (- 1)) (Slice_v_new 1 7) \<and>
   Slice_v_ne (Slice_v_new 1 (- 1)) (Slice_v_new 1 7) = Inr True \<and>
   \<not> Slice_v_eq (Slice_v_new 1 7) (Slice_v_new 2 7) \<and>
   \<not> Slice_v_eq (Slice_v_new 1 7) (Slice_v_new 1 8) \<and>
   bytes (Slice_v_new 1 (- 1)) = ''1|-1'' \<and> bytes (Slice_v_new 1 7) = ''1|7'' \<and>
   Slice_eq (Slice_v_new 1 (- 1)) (Slice_v_new 1 7) = Inr False"
proof -
  have e: "Slice_v_eq (Slice_v_new 1 (- 1)) (Slice_v_new 1 7)"
    "\<not> Slice_v_eq (Slice_v_new 1 7) (Slice_v_new 2 7)"
    "\<not> Slice_v_eq (Slice_v_new 1 7) (Slice_v_new 1 8)"
    by (simp_all add: Slice_v_eq_def src_def dst_def Slice_v_new_def Let_def)
  have b: "bytes (Slice_v_new 1 (- 1)) = ''1|-1''" "bytes (Slice_v_new 1 7) = ''1|7''"
    by (simp_all add: bytes_Slice_v_new to_string_examples)
  have q: "Slice_eq (Slice_v_new 1 (- 1)) (Slice_v_new 1 7) = Inr False"
    by (simp add: Slice_eq_def Slice_v_new_def Let_def to_string_examples)
  have n: "Slice_v_ne (Slice_v_new 1 (- 1)) (Slice_v_new 1 7) = Inr True"
    by (simp add: Slice_v_ne_def q)
  show ?thesis using e b q n by simp
qed

end
